theory Spec2Isabelle
  imports Main "HOL-Library.AList"
begin

section \<open>Python values, errors and library functions\<close>

text \<open>
  The values that travel through the client are the ones a JSON decoder produces, and the
  ones the caller puts into a parameter mapping: \<open>None\<close>, booleans, integers, strings,
  lists and string-keyed dictionaries (listed in insertion order). Non-integer numbers are
  left out.
\<close>

datatype json =
    JNull
  | JBool bool
  | JInt int
  | JStr string
  | JList "json list"
  | JObj "(string \<times> json) list"

text \<open>
  A point in time is the number of microseconds since 0001-01-01 00:00:00, the resolution
  of \<open>datetime.datetime\<close>.
\<close>

type_synonym datetime = int

text \<open>
  The three messages of \<open>SlackError\<close>, each with the value its format string renders:
  \<open>"Too many requests - wait until {0}"\<close>, \<open>"Too many requests - retry after {0} second(s)"\<close>,
  and the bare \<open>result['error']\<close>.
\<close>

datatype slack_msg =
    WaitUntil datetime
  | RetryAfter int
  | ApiError json

datatype error =
    SlackError slack_msg
  | KeyError string
  | TypeError
  | ValueError
  | OverflowError
  | IOError
  | RequestException

text \<open>Python's truth value of an object, as \<open>not x\<close> and \<open>x and a or b\<close> test it.\<close>

fun truthy :: "json \<Rightarrow> bool" where
  "truthy JNull = False"
| "truthy (JBool b) = b"
| "truthy (JInt i) = (i \<noteq> 0)"
| "truthy (JStr s) = (s \<noteq> [])"
| "truthy (JList xs) = (xs \<noteq> [])"
| "truthy (JObj kvs) = (kvs \<noteq> [])"

text \<open>\<open>x[k]\<close> for a string \<open>k\<close>: only a dictionary can be subscripted by a string.\<close>

fun getitem :: "json \<Rightarrow> string \<Rightarrow> error + json" where
  "getitem (JObj kvs) k = (case map_of kvs k of None \<Rightarrow> Inl (KeyError k) | Some v \<Rightarrow> Inr v)"
| "getitem JNull k = Inl TypeError"
| "getitem (JBool b) k = Inl TypeError"
| "getitem (JInt i) k = Inl TypeError"
| "getitem (JStr s) k = Inl TypeError"
| "getitem (JList xs) k = Inl TypeError"

text \<open>
  \<open>for x in v\<close>: a list yields its elements, a dictionary its keys, a string its
  characters; nothing else is iterable.
\<close>

fun py_iter :: "json \<Rightarrow> error + json list" where
  "py_iter (JList xs) = Inr xs"
| "py_iter (JObj kvs) = Inr (map (\<lambda>kv. JStr (fst kv)) kvs)"
| "py_iter (JStr s) = Inr (map (\<lambda>ch. JStr [ch]) s)"
| "py_iter JNull = Inl TypeError"
| "py_iter (JBool b) = Inl TypeError"
| "py_iter (JInt i) = Inl TypeError"

text \<open>
  Dictionary keys: lists and dictionaries are unhashable; \<open>True\<close> and \<open>1\<close> (and
  \<open>False\<close> and \<open>0\<close>) are the same key.
\<close>

fun hashable :: "json \<Rightarrow> bool" where
  "hashable (JList xs) = False"
| "hashable (JObj kvs) = False"
| "hashable JNull = True"
| "hashable (JBool b) = True"
| "hashable (JInt i) = True"
| "hashable (JStr s) = True"

fun key_norm :: "json \<Rightarrow> json" where
  "key_norm (JBool b) = JInt (if b then 1 else 0)"
| "key_norm JNull = JNull"
| "key_norm (JInt i) = JInt i"
| "key_norm (JStr s) = JStr s"
| "key_norm (JList xs) = JList xs"
| "key_norm (JObj kvs) = JObj kvs"

definition key_eq :: "json \<Rightarrow> json \<Rightarrow> bool" where
  "key_eq a b = (key_norm a = key_norm b)"

text \<open>
  A dictionary with arbitrary hashable keys, in insertion order. Storing under a key that
  is present replaces the value and keeps the key object first inserted.
\<close>

type_synonym 'v dict = "(json \<times> 'v) list"

fun dict_set :: "json \<Rightarrow> 'v \<Rightarrow> 'v dict \<Rightarrow> 'v dict" where
  "dict_set k v [] = [(k, v)]"
| "dict_set k v ((k', v') # rest) =
     (if key_eq k k' then (k', v) # rest else (k', v') # dict_set k v rest)"

fun dict_get :: "'v dict \<Rightarrow> json \<Rightarrow> 'v option" where
  "dict_get [] k = None"
| "dict_get ((k', v') # rest) k = (if key_eq k k' then Some v' else dict_get rest k)"

text \<open>
  \<open>int(s)\<close> on a string: surrounding whitespace is dropped, then an optional sign and at
  least one decimal digit must remain; anything else raises \<open>ValueError\<close>.
\<close>

definition is_space :: "char \<Rightarrow> bool" where
  "is_space ch = (ch \<in> set [CHR '' '', CHR 0x09, CHR 0x0A, CHR 0x0B, CHR 0x0C, CHR 0x0D])"

definition is_digit :: "char \<Rightarrow> bool" where
  "is_digit ch = (48 \<le> (of_char ch :: nat) \<and> (of_char ch :: nat) \<le> 57)"

definition digit_val :: "char \<Rightarrow> int" where
  "digit_val ch = int (of_char ch :: nat) - 48"

definition strip :: "string \<Rightarrow> string" where
  "strip s = rev (dropWhile is_space (rev (dropWhile is_space s)))"

definition digits_to_int :: "string \<Rightarrow> int option" where
  "digits_to_int s =
     (if s \<noteq> [] \<and> list_all is_digit s
      then Some (foldl (\<lambda>acc ch. 10 * acc + digit_val ch) 0 s) else None)"

definition py_int :: "string \<Rightarrow> error + int" where
  "py_int s =
     (let t = strip s;
          r = (case t of
                 [] \<Rightarrow> None
               | ch # rest \<Rightarrow>
                   if ch = CHR ''-'' then map_option uminus (digits_to_int rest)
                   else if ch = CHR ''+'' then digits_to_int rest
                   else digits_to_int t)
      in case r of None \<Rightarrow> Inl ValueError | Some n \<Rightarrow> Inr n)"

text \<open>
  \<open>datetime.timedelta(seconds=n)\<close> holds at most 999999999 days either way, and a
  \<open>datetime\<close> lies between the years 1 and 9999; both raise \<open>OverflowError\<close> beyond.
\<close>

definition MAX_DATETIME :: int where
  "MAX_DATETIME = 3652059 * 86400 * 1000000"

definition timedelta_seconds :: "int \<Rightarrow> error + int" where
  "timedelta_seconds n =
     (if - 999999999 \<le> n div 86400 \<and> n div 86400 \<le> 999999999
      then Inr (n * 1000000) else Inl OverflowError)"

definition datetime_add :: "datetime \<Rightarrow> int \<Rightarrow> error + datetime" where
  "datetime_add t d =
     (if 0 \<le> t + d \<and> t + d < MAX_DATETIME then Inr (t + d) else Inl OverflowError)"

section \<open>The world outside the client\<close>

type_synonym params = "(string \<times> json) list"

text \<open>
  What \<open>requests.post(url, data=params, verify=..., files=...)\<close> is given. An open file
  is its content.
\<close>

record request =
  url :: string
  data :: params
  verify_tls :: bool
  files :: "(string \<times> string) list option"

text \<open>
  A response: its status code, its headers (looked up by lower-case name) and what
  \<open>response.json()\<close> decodes the body to, \<open>None\<close> when the body is not JSON.
\<close>

record response =
  status_code :: int
  headers :: "(string \<times> string) list"
  body_json :: "json option"

datatype http_result = Failed | Response response

definition status_code_of :: "http_result \<Rightarrow> int option" where
  "status_code_of r = (case r of Failed \<Rightarrow> None | Response resp \<Rightarrow> Some (status_code resp))"

text \<open>
  The world: the clock (the successive readings of \<open>utcnow\<close>), the server (its answer
  to a request, given the requests it has had before), the files on disk, and the
  exchanges that have taken place so far, oldest first.
\<close>

record world =
  clock :: "nat \<Rightarrow> datetime"
  ticks :: nat
  server :: "request list \<Rightarrow> request \<Rightarrow> http_result"
  disk :: "string \<Rightarrow> string option"
  exchanges :: "(request \<times> http_result) list"

definition utcnow :: "world \<Rightarrow> datetime \<times> world" where
  "utcnow w = (clock w (ticks w), w\<lparr>ticks := Suc (ticks w)\<rparr>)"

definition requests_post :: "world \<Rightarrow> request \<Rightarrow> http_result \<times> world" where
  "requests_post w rq =
     (let r = server w (map fst (exchanges w)) rq
      in (r, w\<lparr>exchanges := exchanges w @ [(rq, r)]\<rparr>))"

definition py_open :: "world \<Rightarrow> string \<Rightarrow> error + string" where
  "py_open w path = (case disk w path of None \<Rightarrow> Inl IOError | Some content \<Rightarrow> Inr content)"

section \<open>The client\<close>

record client =
  token :: string
  verify :: bool
  blocked_until :: "datetime option"
  channel_name_id_map :: "json dict"
  group_name_id_map :: "json dict"
  user_id_name_map :: "(json \<times> json) dict"

text \<open>
  A method returns a value or raises, and either way leaves a client and a world behind.
\<close>

type_synonym 'a outcome = "(error + 'a) \<times> client \<times> world"

definition BASE_URL :: string where
  "BASE_URL = ''https://slack.com/api''"

definition init :: "string \<Rightarrow> bool \<Rightarrow> client" where
  "init tok vfy =
     \<lparr>token = tok, verify = vfy, blocked_until = None,
      channel_name_id_map = [], group_name_id_map = [], user_id_name_map = []\<rparr>"

definition channel_is_name :: "string \<Rightarrow> bool" where
  "channel_is_name channel = (case channel of [] \<Rightarrow> False | ch # rest \<Rightarrow> ch = CHR ''#'')"

text \<open>\<open>response.headers.get('retry-after', '1')\<close>.\<close>

definition retry_after_header :: "response \<Rightarrow> string" where
  "retry_after_header resp =
     (case map_of (headers resp) ''retry-after'' of None \<Rightarrow> ''1'' | Some h \<Rightarrow> h)"

text \<open>Lines 39 to 50 of the dispatch routine: what is done with the response.\<close>

definition handle_response :: "client \<Rightarrow> world \<Rightarrow> response \<Rightarrow> json outcome" where
  "handle_response c w resp =
     (if status_code resp = 429 then
        (case py_int (retry_after_header resp) of
           Inl e \<Rightarrow> (Inl e, c, w)
         | Inr retry_after \<Rightarrow>
             (case utcnow w of (now, w1) \<Rightarrow>
                (case timedelta_seconds retry_after of
                   Inl e \<Rightarrow> (Inl e, c, w1)
                 | Inr delta \<Rightarrow>
                     (case datetime_add now delta of
                        Inl e \<Rightarrow> (Inl e, c, w1)
                      | Inr deadline \<Rightarrow>
                          (Inl (SlackError (RetryAfter retry_after)),
                           c\<lparr>blocked_until := Some deadline\<rparr>, w1)))))
      else
        (case body_json resp of
           None \<Rightarrow> (Inl ValueError, c, w)
         | Some result \<Rightarrow>
             (case getitem result ''ok'' of
                Inl e \<Rightarrow> (Inl e, c, w)
              | Inr ok \<Rightarrow>
                  if \<not> truthy ok then
                    (case getitem result ''error'' of
                       Inl e \<Rightarrow> (Inl e, c, w)
                     | Inr msg \<Rightarrow> (Inl (SlackError (ApiError msg)), c, w))
                  else (Inr result, c, w))))"

text \<open>Lines 35 to 37: the token goes into the parameters and the request is posted.\<close>

definition build_request ::
  "client \<Rightarrow> string \<Rightarrow> params \<Rightarrow> (string \<times> string) list option \<Rightarrow> request" where
  "build_request c method ps fs =
     \<lparr>url = BASE_URL @ ''/'' @ method,
      data = AList.update ''token'' (JStr (token c)) ps,
      verify_tls = verify c, files = fs\<rparr>"

definition post_request ::
  "client \<Rightarrow> world \<Rightarrow> string \<Rightarrow> params \<Rightarrow> (string \<times> string) list option \<Rightarrow> json outcome" where
  "post_request c w method ps fs =
     (case requests_post w (build_request c method ps fs) of
        (Failed, w1) \<Rightarrow> (Inl RequestException, c, w1)
      | (Response resp, w1) \<Rightarrow> handle_response c w1 resp)"

text \<open>
  The test of lines 30 and 31: the deadline when the call is to be refused. The clock is
  read only when a deadline is set.
\<close>

definition rate_limited :: "client \<Rightarrow> world \<Rightarrow> datetime option \<times> world" where
  "rate_limited c w =
     (case blocked_until c of
        None \<Rightarrow> (None, w)
      | Some deadline \<Rightarrow>
          (case utcnow w of (now, w1) \<Rightarrow>
             (if now < deadline then Some deadline else None, w1)))"

definition make_request ::
  "client \<Rightarrow> world \<Rightarrow> string \<Rightarrow> params \<Rightarrow> (string \<times> string) list option \<Rightarrow> json outcome" where
  "make_request c w method ps fs =
     (case rate_limited c w of
        (Some deadline, w1) \<Rightarrow> (Inl (SlackError (WaitUntil deadline)), c, w1)
      | (None, w1) \<Rightarrow> post_request c w1 method ps fs)"

section \<open>The methods of the client\<close>

definition channels_list :: "client \<Rightarrow> world \<Rightarrow> bool \<Rightarrow> params \<Rightarrow> json outcome" where
  "channels_list c w exclude_archived ps =
     make_request c w ''channels.list''
       (AList.update ''exclude_archived'' (JInt (if exclude_archived then 1 else 0)) ps) None"

definition groups_list :: "client \<Rightarrow> world \<Rightarrow> bool \<Rightarrow> params \<Rightarrow> json outcome" where
  "groups_list c w exclude_archived ps =
     make_request c w ''groups.list''
       (AList.update ''exclude_archived'' (JInt (if exclude_archived then 1 else 0)) ps) None"

definition users_list :: "client \<Rightarrow> world \<Rightarrow> params \<Rightarrow> json outcome" where
  "users_list c w ps = make_request c w ''users.list'' ps None"

text \<open>
  The comprehension \<open>{x['name']: x['id'] for x in xs}\<close>, element by element: the value
  is evaluated before the key, and the pair is stored under the key's hash.
\<close>

fun name_id_pairs :: "json list \<Rightarrow> json dict \<Rightarrow> error + json dict" where
  "name_id_pairs [] acc = Inr acc"
| "name_id_pairs (x # xs) acc =
     (case getitem x ''id'' of
        Inl e \<Rightarrow> Inl e
      | Inr v \<Rightarrow>
          (case getitem x ''name'' of
             Inl e \<Rightarrow> Inl e
           | Inr k \<Rightarrow> if hashable k then name_id_pairs xs (dict_set k v acc) else Inl TypeError))"

definition name_id_map :: "json \<Rightarrow> error + json dict" where
  "name_id_map listing =
     (case py_iter listing of Inl e \<Rightarrow> Inl e | Inr xs \<Rightarrow> name_id_pairs xs [])"

text \<open>
  The comprehension of the user cache,
  \<open>{u['id']: {'name': u['name'], 'realname': u['profile']['real_name']} for u in users}\<close>.
  An entry is the pair of its \<open>name\<close> and its \<open>realname\<close>.
\<close>

fun id_names_pairs :: "json list \<Rightarrow> (json \<times> json) dict \<Rightarrow> error + (json \<times> json) dict" where
  "id_names_pairs [] acc = Inr acc"
| "id_names_pairs (u # us) acc =
     (case getitem u ''name'' of
        Inl e \<Rightarrow> Inl e
      | Inr nm \<Rightarrow>
          (case getitem u ''profile'' of
             Inl e \<Rightarrow> Inl e
           | Inr profile \<Rightarrow>
               (case getitem profile ''real_name'' of
                  Inl e \<Rightarrow> Inl e
                | Inr rn \<Rightarrow>
                    (case getitem u ''id'' of
                       Inl e \<Rightarrow> Inl e
                     | Inr k \<Rightarrow>
                         if hashable k then id_names_pairs us (dict_set k (nm, rn) acc)
                         else Inl TypeError))))"

definition id_names_map :: "json \<Rightarrow> error + (json \<times> json) dict" where
  "id_names_map listing =
     (case py_iter listing of Inl e \<Rightarrow> Inl e | Inr us \<Rightarrow> id_names_pairs us [])"

text \<open>
  \<open>name.startswith('#') and name[1:] or name\<close>: the rest of the name when it starts
  with the sigil and the rest is not empty, the name itself otherwise.
\<close>

definition strip_sigil :: "string \<Rightarrow> string" where
  "strip_sigil name =
     (if channel_is_name name then (if tl name \<noteq> [] then tl name else name) else name)"

text \<open>\<open>d.get(k)\<close>: the value, or \<open>None\<close>.\<close>

definition get_or_none :: "json dict \<Rightarrow> json \<Rightarrow> json" where
  "get_or_none d k = (case dict_get d k of None \<Rightarrow> JNull | Some v \<Rightarrow> v)"

text \<open>Lines 69 to 71, 98 to 100, and 117 to 120 (127 to 130): the refresh of a cache.\<close>

definition refresh_channels :: "client \<Rightarrow> world \<Rightarrow> bool \<Rightarrow> unit outcome" where
  "refresh_channels c w force_lookup =
     (if force_lookup \<or> channel_name_id_map c = [] then
        (case channels_list c w True [] of
           (Inl e, c1, w1) \<Rightarrow> (Inl e, c1, w1)
         | (Inr result, c1, w1) \<Rightarrow>
             (case getitem result ''channels'' of
                Inl e \<Rightarrow> (Inl e, c1, w1)
              | Inr channels \<Rightarrow>
                  (case name_id_map channels of
                     Inl e \<Rightarrow> (Inl e, c1, w1)
                   | Inr m \<Rightarrow> (Inr (), c1\<lparr>channel_name_id_map := m\<rparr>, w1))))
      else (Inr (), c, w))"

definition refresh_groups :: "client \<Rightarrow> world \<Rightarrow> bool \<Rightarrow> unit outcome" where
  "refresh_groups c w force_lookup =
     (if force_lookup \<or> group_name_id_map c = [] then
        (case groups_list c w True [] of
           (Inl e, c1, w1) \<Rightarrow> (Inl e, c1, w1)
         | (Inr result, c1, w1) \<Rightarrow>
             (case getitem result ''groups'' of
                Inl e \<Rightarrow> (Inl e, c1, w1)
              | Inr groups \<Rightarrow>
                  (case name_id_map groups of
                     Inl e \<Rightarrow> (Inl e, c1, w1)
                   | Inr m \<Rightarrow> (Inr (), c1\<lparr>group_name_id_map := m\<rparr>, w1))))
      else (Inr (), c, w))"

definition refresh_users :: "client \<Rightarrow> world \<Rightarrow> bool \<Rightarrow> unit outcome" where
  "refresh_users c w force_lookup =
     (if force_lookup \<or> user_id_name_map c = [] then
        (case users_list c w [] of
           (Inl e, c1, w1) \<Rightarrow> (Inl e, c1, w1)
         | (Inr result, c1, w1) \<Rightarrow>
             (case getitem result ''members'' of
                Inl e \<Rightarrow> (Inl e, c1, w1)
              | Inr users \<Rightarrow>
                  (case id_names_map users of
                     Inl e \<Rightarrow> (Inl e, c1, w1)
                   | Inr m \<Rightarrow> (Inr (), c1\<lparr>user_id_name_map := m\<rparr>, w1))))
      else (Inr (), c, w))"

definition channel_name_to_id :: "client \<Rightarrow> world \<Rightarrow> string \<Rightarrow> bool \<Rightarrow> json outcome" where
  "channel_name_to_id c w channel_name force_lookup =
     (case refresh_channels c w force_lookup of
        (Inl e, c1, w1) \<Rightarrow> (Inl e, c1, w1)
      | (Inr u, c1, w1) \<Rightarrow>
          (Inr (get_or_none (channel_name_id_map c1) (JStr (strip_sigil channel_name))), c1, w1))"

definition group_name_to_id :: "client \<Rightarrow> world \<Rightarrow> string \<Rightarrow> bool \<Rightarrow> json outcome" where
  "group_name_to_id c w group_name force_lookup =
     (case refresh_groups c w force_lookup of
        (Inl e, c1, w1) \<Rightarrow> (Inl e, c1, w1)
      | (Inr u, c1, w1) \<Rightarrow>
          (Inr (get_or_none (group_name_id_map c1) (JStr (strip_sigil group_name))), c1, w1))"

definition channel_history :: "client \<Rightarrow> world \<Rightarrow> string \<Rightarrow> params \<Rightarrow> json outcome" where
  "channel_history c w channel ps =
     (case channel_name_to_id c w channel False of
        (Inl e, c1, w1) \<Rightarrow> (Inl e, c1, w1)
      | (Inr channel_id, c1, w1) \<Rightarrow>
          make_request c1 w1 ''channels.history'' (AList.update ''channel'' channel_id ps) None)"

definition group_history :: "client \<Rightarrow> world \<Rightarrow> string \<Rightarrow> params \<Rightarrow> json outcome" where
  "group_history c w grp ps =
     (case group_name_to_id c w grp False of
        (Inl e, c1, w1) \<Rightarrow> (Inl e, c1, w1)
      | (Inr group_id, c1, w1) \<Rightarrow>
          make_request c1 w1 ''groups.history'' (AList.update ''channel'' group_id ps) None)"

text \<open>
  \<open>self.user_id_name_map.get(user_id)['realname']\<close>: subscripting the \<open>None\<close> of a
  missing id raises \<open>TypeError\<close>.
\<close>

definition user_id_to_name :: "client \<Rightarrow> world \<Rightarrow> string \<Rightarrow> bool \<Rightarrow> bool \<Rightarrow> json outcome" where
  "user_id_to_name c w user_id get_realname force_lookup =
     (case refresh_users c w force_lookup of
        (Inl e, c1, w1) \<Rightarrow> (Inl e, c1, w1)
      | (Inr u, c1, w1) \<Rightarrow>
          (case dict_get (user_id_name_map c1) (JStr user_id) of
             None \<Rightarrow> (Inl TypeError, c1, w1)
           | Some names \<Rightarrow> (Inr (if get_realname then snd names else fst names), c1, w1)))"





text \<open>
  The loop of \<open>file_upload\<close>: an entry in name form is looked up and its id appended; any
  other entry is skipped.
\<close>

fun upload_channel_ids ::
  "client \<Rightarrow> world \<Rightarrow> string list \<Rightarrow> json list \<Rightarrow> (json list) outcome" where
  "upload_channel_ids c w [] channel_ids = (Inr channel_ids, c, w)"
| "upload_channel_ids c w (channel # channels) channel_ids =
     (if channel_is_name channel then
        (case channel_name_to_id c w channel False of
           (Inl e, c1, w1) \<Rightarrow> (Inl e, c1, w1)
         | (Inr channel_id, c1, w1) \<Rightarrow>
             upload_channel_ids c1 w1 channels (channel_ids @ [channel_id]))
      else upload_channel_ids c w channels channel_ids)"

text \<open>\<open>','.join(xs)\<close>: every item must be a string.\<close>

fun join_strs :: "json list \<Rightarrow> error + string" where
  "join_strs [] = Inr []"
| "join_strs [JStr s] = Inr s"
| "join_strs (JStr s # x # xs) =
     (case join_strs (x # xs) of Inl e \<Rightarrow> Inl e | Inr t \<Rightarrow> Inr (s @ '','' @ t))"
| "join_strs (y # ys) = Inl TypeError"

definition file_upload :: "client \<Rightarrow> world \<Rightarrow> string list \<Rightarrow> string \<Rightarrow> params \<Rightarrow> json outcome" where
  "file_upload c w channels file ps =
     (case upload_channel_ids c w channels [] of
        (Inl e, c1, w1) \<Rightarrow> (Inl e, c1, w1)
      | (Inr channel_ids, c1, w1) \<Rightarrow>
          (case join_strs channel_ids of
             Inl e \<Rightarrow> (Inl e, c1, w1)
           | Inr joined \<Rightarrow>
               (case py_open w1 file of
                  Inl e \<Rightarrow> (Inl e, c1, w1)
                | Inr content \<Rightarrow>
                    make_request c1 w1 ''files.upload''
                      (AList.update ''channels'' (JStr joined) ps)
                      (Some [(''file'', content)]))))"

section \<open>Runs of the client\<close>









section \<open>Stub transports and sample states\<close>

definition stub_world :: "response \<Rightarrow> world" where
  "stub_world resp =
     \<lparr>clock = (\<lambda>n. 1000000 * int n), ticks = 0,
      server = (\<lambda>earlier rq. Response resp),
      disk = (\<lambda>path. if path = ''report.txt'' then Some ''quarterly'' else None),
      exchanges = []\<rparr>"

definition ok_response :: response where
  "ok_response =
     \<lparr>status_code = 200, headers = [], body_json = Some (JObj [(''ok'', JBool True)])\<rparr>"

definition not_found_response :: response where
  "not_found_response =
     \<lparr>status_code = 200, headers = [],
      body_json = Some (JObj [(''ok'', JBool False), (''error'', JStr ''channel_not_found'')])\<rparr>"

definition retry_absent_response :: response where
  "retry_absent_response = \<lparr>status_code = 429, headers = [], body_json = None\<rparr>"

definition retry_soon_response :: response where
  "retry_soon_response =
     \<lparr>status_code = 429, headers = [(''retry-after'', ''soon'')], body_json = None\<rparr>"



definition fresh_client :: client where
  "fresh_client = init ''xoxb-1'' False"

definition blocked_client :: client where
  "blocked_client = fresh_client\<lparr>blocked_until := Some 5000000\<rparr>"

definition cached_client :: client where
  "cached_client =
     fresh_client\<lparr>channel_name_id_map := [(JStr ''general'', JStr ''C1'')],
                  group_name_id_map := [(JStr ''ops'', JStr ''G1'')],
                  user_id_name_map := [(JStr ''U1'', (JStr ''alice'', JStr ''Alice A''))]\<rparr>"

definition sigil_client :: client where
  "sigil_client = fresh_client\<lparr>channel_name_id_map := [(JStr ''#'', JStr ''C9'')]\<rparr>"




section \<open>Properties of the dispatch routine\<close>

lemma rate_limited_exchanges:
  "rate_limited c w = (b, w1) \<Longrightarrow> exchanges w1 = exchanges w"
  by (auto simp: rate_limited_def utcnow_def split: option.splits if_splits)

lemma rate_limited_stub:
  "rate_limited fresh_client (stub_world resp) = (None, stub_world resp)"
  by (simp add: rate_limited_def fresh_client_def init_def)

lemma handle_response_client:
  assumes "handle_response c w resp = (r, c', w')"
  shows "c' = c \<or> (\<exists>d. c' = c\<lparr>blocked_until := Some d\<rparr> \<and> status_code resp = 429)"
  using assms
  by (auto simp: handle_response_def utcnow_def
      split: if_splits sum.splits option.splits prod.splits)

lemma handle_response_exchanges:
  assumes "handle_response c w resp = (r, c', w')"
  shows "exchanges w' = exchanges w"
  using assms
  by (auto simp: handle_response_def utcnow_def
      split: if_splits sum.splits option.splits prod.splits)


lemma make_request_effect:
  assumes "make_request c w method ps fs = (r, c', w')"
  shows "c' = c \<and> (\<exists>new. exchanges w' = exchanges w @ new) \<or>
         (\<exists>d resp. c' = c\<lparr>blocked_until := Some d\<rparr> \<and> status_code resp = 429 \<and>
            exchanges w' = exchanges w @ [(build_request c method ps fs, Response resp)])"
proof (cases "rate_limited c w")
  case (Pair b w1)
  note ex = rate_limited_exchanges [OF Pair]
  show ?thesis
  proof (cases b)
    case (Some d)
    with Pair assms ex show ?thesis by (auto simp: make_request_def)
  next
    case None
    with Pair assms have p: "post_request c w1 method ps fs = (r, c', w')"
      by (simp add: make_request_def)
    show ?thesis
    proof (cases "server w1 (map fst (exchanges w1)) (build_request c method ps fs)")
      case Failed
      with p ex show ?thesis by (auto simp: post_request_def requests_post_def Let_def)
    next
      case (Response resp)
      let ?w2 = "w1\<lparr>exchanges := exchanges w1 @ [(build_request c method ps fs, Response resp)]\<rparr>"
      from p Response have h: "handle_response c ?w2 resp = (r, c', w')"
        by (simp add: post_request_def requests_post_def Let_def)
      from handle_response_exchanges [OF h] ex
      have "exchanges w' = exchanges w @ [(build_request c method ps fs, Response resp)]"
        by simp
      with handle_response_client [OF h] show ?thesis by blast
    qed
  qed
qed


lemma make_request_sends:
  assumes "rate_limited c w = (None, w0)"
  shows "exchanges (snd (snd (make_request c w method ps fs))) =
           exchanges w @ [(build_request c method ps fs,
                           server w0 (map fst (exchanges w)) (build_request c method ps fs))]"
proof -
  note ex = rate_limited_exchanges [OF assms]
  show ?thesis
  proof (cases "server w0 (map fst (exchanges w0)) (build_request c method ps fs)")
    case Failed
    with assms ex show ?thesis
      by (simp add: make_request_def post_request_def requests_post_def Let_def)
  next
    case (Response resp)
    let ?w2 = "w0\<lparr>exchanges := exchanges w0 @ [(build_request c method ps fs, Response resp)]\<rparr>"
    obtain r c' w' where h: "handle_response c ?w2 resp = (r, c', w')"
      by (cases "handle_response c ?w2 resp") auto
    from handle_response_exchanges [OF h] h Response assms ex show ?thesis
      by (simp add: make_request_def post_request_def requests_post_def Let_def)
  qed
qed

lemma timedelta_in_range:
  assumes "0 \<le> now" "now < MAX_DATETIME"
    and "0 \<le> now + n * 1000000" "now + n * 1000000 < MAX_DATETIME"
  shows "timedelta_seconds n = Inr (n * 1000000)"
proof -
  have "- 315537897600 < n" "n < 315537897600"
    using assms by (simp_all add: MAX_DATETIME_def)
  then have "- 999999999 \<le> n div 86400 \<and> n div 86400 \<le> 999999999"
    by linarith
  then show ?thesis by (simp add: timedelta_seconds_def)
qed

lemma py_int_one: "py_int ''1'' = Inr 1"
  by (simp add: py_int_def strip_def is_space_def digits_to_int_def is_digit_def digit_val_def)

text \<open>
  Claim C1. While \<open>blocked_until\<close> is set and the clock reads a time strictly before
  it, a call of the dispatch routine raises the rate-limited \<open>SlackError\<close> that carries
  the stored deadline; the client is as it was, and no exchange with the server is added.
\<close>

theorem make_request_blocked:
  assumes "blocked_until c = Some deadline" and "clock w (ticks w) < deadline"
  shows "make_request c w method ps fs =
           (Inl (SlackError (WaitUntil deadline)), c, w\<lparr>ticks := Suc (ticks w)\<rparr>) \<and>
         exchanges (snd (snd (make_request c w method ps fs))) = exchanges w"
  using assms by (simp add: make_request_def rate_limited_def utcnow_def)

text \<open>
  The same at a client blocked until second 5, under a clock that reads second 0.
\<close>

theorem make_request_blocked_witness:
  "blocked_until blocked_client = Some 5000000 \<and>
   clock (stub_world ok_response) (ticks (stub_world ok_response)) < 5000000 \<and>
   fst (make_request blocked_client (stub_world ok_response) ''chat.postMessage'' [] None) =
     Inl (SlackError (WaitUntil 5000000)) \<and>
   exchanges (snd (snd (make_request blocked_client (stub_world ok_response)
     ''chat.postMessage'' [] None))) = []"
proof -
  have b: "blocked_until blocked_client = Some 5000000"
    by (simp add: blocked_client_def)
  have t: "clock (stub_world ok_response) (ticks (stub_world ok_response)) < 5000000"
    by (simp add: stub_world_def)
  show ?thesis
    using b t make_request_blocked [OF b t, of "''chat.postMessage''" "[]" None]
    by (simp add: stub_world_def)
qed

text \<open>
  Claim C2, as stated, fails on a header that is not a number: for a 429 response with
  \<open>retry-after: soon\<close> the conversion \<open>int('soon')\<close> raises \<open>ValueError\<close>, no
  \<open>SlackError\<close> is raised and \<open>blocked_until\<close> stays unset.
\<close>

theorem make_request_malformed_retry_after:
  "fst (make_request fresh_client (stub_world retry_soon_response) ''chat.postMessage'' [] None) =
     Inl ValueError \<and>
   blocked_until (fst (snd (make_request fresh_client (stub_world retry_soon_response)
     ''chat.postMessage'' [] None))) = None \<and>
   map (status_code_of \<circ> snd) (exchanges (snd (snd (make_request fresh_client
     (stub_world retry_soon_response) ''chat.postMessage'' [] None)))) = [Some 429]"
  by (simp add: make_request_def rate_limited_def post_request_def requests_post_def
      handle_response_def retry_after_header_def retry_soon_response_def stub_world_def
      fresh_client_def init_def py_int_def strip_def is_space_def digits_to_int_def
      is_digit_def status_code_of_def Let_def)

text \<open>
  Claim C2, amended. When a request is dispatched and answered with status 429, and the
  \<open>retry-after\<close> header is absent (then \<open>n = 1\<close>) or converts to the integer \<open>n\<close>, and
  the time read plus \<open>n\<close> seconds is a representable \<open>datetime\<close>, the client sets
  \<open>blocked_until\<close> to that sum and raises the rate-limited \<open>SlackError\<close> carrying \<open>n\<close>;
  no response body is returned.
\<close>

theorem make_request_429:
  assumes guard: "rate_limited c w = (None, w0)"
    and resp: "server w0 (map fst (exchanges w0)) (build_request c method ps fs) = Response resp"
    and status: "status_code resp = 429"
    and hdr: "py_int (retry_after_header resp) = Inr n"
    and now: "0 \<le> clock w0 (ticks w0)" "clock w0 (ticks w0) < MAX_DATETIME"
    and sum: "0 \<le> clock w0 (ticks w0) + n * 1000000"
             "clock w0 (ticks w0) + n * 1000000 < MAX_DATETIME"
  shows "make_request c w method ps fs =
           (Inl (SlackError (RetryAfter n)),
            c\<lparr>blocked_until := Some (clock w0 (ticks w0) + n * 1000000)\<rparr>,
            w0\<lparr>ticks := Suc (ticks w0),
               exchanges := exchanges w0 @ [(build_request c method ps fs, Response resp)]\<rparr>) \<and>
         (map_of (headers resp) ''retry-after'' = None \<longrightarrow> n = 1)"
proof -
  have td: "timedelta_seconds n = Inr (n * 1000000)"
    using now sum by (rule timedelta_in_range)
  have dflt: "map_of (headers resp) ''retry-after'' = None \<longrightarrow> n = 1"
    using hdr py_int_one by (auto simp: retry_after_header_def)
  have "make_request c w method ps fs =
           (Inl (SlackError (RetryAfter n)),
            c\<lparr>blocked_until := Some (clock w0 (ticks w0) + n * 1000000)\<rparr>,
            w0\<lparr>ticks := Suc (ticks w0),
               exchanges := exchanges w0 @ [(build_request c method ps fs, Response resp)]\<rparr>)"
    using guard resp status hdr td sum
    by (simp add: make_request_def post_request_def requests_post_def handle_response_def
        utcnow_def datetime_add_def Let_def)
  with dflt show ?thesis by simp
qed

text \<open>
  The same for a 429 response without the header: the deadline is one second after the
  time read.
\<close>

theorem make_request_429_witness:
  "rate_limited fresh_client (stub_world retry_absent_response) =
     (None, stub_world retry_absent_response) \<and>
   status_code retry_absent_response = 429 \<and>
   py_int (retry_after_header retry_absent_response) = Inr 1 \<and>
   fst (make_request fresh_client (stub_world retry_absent_response) ''chat.postMessage'' [] None) =
     Inl (SlackError (RetryAfter 1)) \<and>
   blocked_until (fst (snd (make_request fresh_client (stub_world retry_absent_response)
     ''chat.postMessage'' [] None))) = Some 1000000"
proof -
  let ?w = "stub_world retry_absent_response"
  have g: "rate_limited fresh_client ?w = (None, ?w)"
    by (rule rate_limited_stub)
  have r: "server ?w (map fst (exchanges ?w))
             (build_request fresh_client ''chat.postMessage'' [] None) =
           Response retry_absent_response"
    by (simp add: stub_world_def)
  have s: "status_code retry_absent_response = 429"
    by (simp add: retry_absent_response_def)
  have h: "py_int (retry_after_header retry_absent_response) = Inr 1"
    by (simp add: retry_after_header_def retry_absent_response_def py_int_one)
  have n: "0 \<le> clock ?w (ticks ?w)" "clock ?w (ticks ?w) < MAX_DATETIME"
    "0 \<le> clock ?w (ticks ?w) + 1 * 1000000" "clock ?w (ticks ?w) + 1 * 1000000 < MAX_DATETIME"
    by (simp_all add: stub_world_def MAX_DATETIME_def)
  show ?thesis
    using g s h make_request_429 [OF g r s h n]
    by (simp add: stub_world_def)
qed

text \<open>
  Claim C3. When a request is dispatched and answered with a status other than 429 whose
  body decodes to a mapping with an \<open>ok\<close> field: if that field is falsy, the call raises a
  \<open>SlackError\<close> whose message is the value of the mapping's \<open>error\<close> field; otherwise it
  returns the decoded mapping itself. The client is as it was.
\<close>

theorem make_request_decodes:
  assumes guard: "rate_limited c w = (None, w0)"
    and resp: "server w0 (map fst (exchanges w0)) (build_request c method ps fs) = Response resp"
    and status: "status_code resp \<noteq> 429"
    and body: "body_json resp = Some result"
    and ok: "getitem result ''ok'' = Inr ok"
    and w1: "w1 = w0\<lparr>exchanges := exchanges w0 @ [(build_request c method ps fs, Response resp)]\<rparr>"
  shows "(\<not> truthy ok \<and> getitem result ''error'' = Inr msg \<longrightarrow>
            make_request c w method ps fs = (Inl (SlackError (ApiError msg)), c, w1)) \<and>
         (truthy ok \<longrightarrow> make_request c w method ps fs = (Inr result, c, w1))"
  using assms
  by (simp add: make_request_def post_request_def requests_post_def handle_response_def Let_def)

text \<open>
  The same for the stub transport that answers
  \<open>{"ok": false, "error": "channel_not_found"}\<close>.
\<close>

theorem make_request_decodes_witness:
  "rate_limited fresh_client (stub_world not_found_response) =
     (None, stub_world not_found_response) \<and>
   status_code not_found_response \<noteq> 429 \<and>
   body_json not_found_response =
     Some (JObj [(''ok'', JBool False), (''error'', JStr ''channel_not_found'')]) \<and>
   \<not> truthy (JBool False) \<and>
   fst (make_request fresh_client (stub_world not_found_response) ''chat.postMessage'' [] None) =
     Inl (SlackError (ApiError (JStr ''channel_not_found'')))"
proof -
  let ?w = "stub_world not_found_response"
  let ?result = "JObj [(''ok'', JBool False), (''error'', JStr ''channel_not_found'')]"
  have g: "rate_limited fresh_client ?w = (None, ?w)"
    by (rule rate_limited_stub)
  have r: "server ?w (map fst (exchanges ?w))
             (build_request fresh_client ''chat.postMessage'' [] None) =
           Response not_found_response"
    by (simp add: stub_world_def)
  have s: "status_code not_found_response \<noteq> 429"
    by (simp add: not_found_response_def)
  have b: "body_json not_found_response = Some ?result"
    by (simp add: not_found_response_def)
  have k: "getitem ?result ''ok'' = Inr (JBool False)"
    by simp
  have m: "getitem ?result ''error'' = Inr (JStr ''channel_not_found'')"
    by simp
  show ?thesis
    using g s b m make_request_decodes [OF g r s b k refl, of "JStr ''channel_not_found''"]
    by simp
qed

text \<open>
  Claim C9. A call of the dispatch routine changes no field of the client other than
  \<open>blocked_until\<close>; it changes \<open>blocked_until\<close> only when the request was posted and
  answered with status 429; and it never puts \<open>blocked_until\<close> back to the unset state.
\<close>

theorem make_request_frame:
  assumes "make_request c w method ps fs = (r, c', w')"
  shows "(\<exists>b. c' = c\<lparr>blocked_until := b\<rparr>) \<and>
         channel_name_id_map c' = channel_name_id_map c \<and>
         group_name_id_map c' = group_name_id_map c \<and>
         user_id_name_map c' = user_id_name_map c \<and>
         (blocked_until c' \<noteq> blocked_until c \<longrightarrow>
            (\<exists>resp. exchanges w' =
                      exchanges w @ [(build_request c method ps fs, Response resp)] \<and>
                    status_code resp = 429)) \<and>
         (blocked_until c \<noteq> None \<longrightarrow> blocked_until c' \<noteq> None)"
proof -
  from make_request_effect [OF assms]
  consider (same) "c' = c"
    | (set) d resp where "c' = c\<lparr>blocked_until := Some d\<rparr>" "status_code resp = 429"
        "exchanges w' = exchanges w @ [(build_request c method ps fs, Response resp)]"
    by blast
  then show ?thesis
  proof cases
    case same
    have "c = c\<lparr>blocked_until := blocked_until c\<rparr>" by simp
    with same show ?thesis by blast
  next
    case set
    then show ?thesis by auto
  qed
qed

text \<open>
  The same for a 429 response to an unblocked client: the deadline is the one field that
  changes.
\<close>

theorem make_request_frame_witness:
  "blocked_until (fst (snd (make_request fresh_client (stub_world retry_absent_response)
     ''chat.postMessage'' [] None))) \<noteq> blocked_until fresh_client \<and>
   channel_name_id_map (fst (snd (make_request fresh_client (stub_world retry_absent_response)
     ''chat.postMessage'' [] None))) = channel_name_id_map fresh_client \<and>
   (\<exists>resp. exchanges (snd (snd (make_request fresh_client (stub_world retry_absent_response)
              ''chat.postMessage'' [] None))) =
            exchanges (stub_world retry_absent_response) @
              [(build_request fresh_client ''chat.postMessage'' [] None, Response resp)] \<and>
          status_code resp = 429)"
proof -
  let ?out = "make_request fresh_client (stub_world retry_absent_response)
                ''chat.postMessage'' [] None"
  have e: "?out = (fst ?out, fst (snd ?out), snd (snd ?out))"
    by simp
  have ne: "blocked_until (fst (snd ?out)) \<noteq> blocked_until fresh_client"
    by (simp add: make_request_def rate_limited_def post_request_def requests_post_def
        handle_response_def retry_after_header_def retry_absent_response_def stub_world_def
        py_int_one utcnow_def timedelta_seconds_def datetime_add_def MAX_DATETIME_def
        fresh_client_def init_def Let_def)
  show ?thesis
    using ne make_request_frame [OF e] by blast
qed

section \<open>Properties of the lookups\<close>

lemmas eval_defs = make_request_def rate_limited_def post_request_def requests_post_def
  handle_response_def build_request_def BASE_URL_def utcnow_def Let_def
  channels_list_def refresh_channels_def channel_name_to_id_def name_id_map_def
  get_or_none_def strip_sigil_def channel_is_name_def key_eq_def
  stub_world_def fresh_client_def init_def cached_client_def

lemma strip_sigil_prefixed:
  assumes "n \<noteq> []" and "\<not> channel_is_name n"
  shows "strip_sigil (CHR ''#'' # n) = strip_sigil n"
  using assms by (simp add: strip_sigil_def channel_is_name_def)






text \<open>
  Claim C6, as stated, fails for a name that itself begins with the sigil and for the
  empty name: only one sigil is taken off, so \<open>##general\<close> is looked up as
  \<open>#general\<close> while \<open>#general\<close> is looked up as \<open>general\<close>; and the lone sigil
  \<open>#\<close> is looked up as it is, since \<open>name[1:]\<close> is empty and hence falsy.
\<close>

theorem sigil_not_idempotent:
  "fst (channel_name_to_id cached_client (stub_world ok_response) (CHR ''#'' # ''#general'') False) =
     Inr JNull \<and>
   fst (channel_name_to_id cached_client (stub_world ok_response) ''#general'' False) =
     Inr (JStr ''C1'') \<and>
   fst (channel_name_to_id sigil_client (stub_world ok_response) (CHR ''#'' # '''') False) =
     Inr (JStr ''C9'') \<and>
   fst (channel_name_to_id sigil_client (stub_world ok_response) '''' False) = Inr JNull"
  by (simp add: eval_defs sigil_client_def)

text \<open>
  Claim C6, amended. For every name \<open>n\<close> that is not empty and does not itself begin
  with the sigil, and for any client, world and \<open>force_lookup\<close>, looking up \<open>'#' + n\<close>
  has the same outcome (result, client and world) as looking up \<open>n\<close>, for channels and
  for groups.
\<close>

theorem sigil_stripped:
  assumes "n \<noteq> []" and "\<not> channel_is_name n"
  shows "channel_name_to_id c w (CHR ''#'' # n) force_lookup = channel_name_to_id c w n force_lookup \<and>
         group_name_to_id c w (CHR ''#'' # n) force_lookup = group_name_to_id c w n force_lookup"
  unfolding channel_name_to_id_def group_name_to_id_def strip_sigil_prefixed [OF assms]
  by simp

text \<open>
  The same for \<open>general\<close>, which the cache resolves to \<open>C1\<close>.
\<close>

theorem sigil_stripped_witness:
  "''general'' \<noteq> [] \<and> \<not> channel_is_name ''general'' \<and>
   channel_name_to_id cached_client (stub_world ok_response) ''#general'' False =
     channel_name_to_id cached_client (stub_world ok_response) ''general'' False \<and>
   fst (channel_name_to_id cached_client (stub_world ok_response) ''general'' False) =
     Inr (JStr ''C1'')"
proof -
  have a: "''general'' \<noteq> []" by simp
  have b: "\<not> channel_is_name ''general''" by (simp add: channel_is_name_def)
  have v: "fst (channel_name_to_id cached_client (stub_world ok_response) ''general'' False) =
     Inr (JStr ''C1'')"
    by (simp add: eval_defs)
  show ?thesis
    using a b v sigil_stripped [OF a b, of cached_client "stub_world ok_response" False]
    by simp
qed




text \<open>
  Claim C5 against the code: with \<open>U404\<close> absent from a populated user cache,
  \<open>user_id_to_name\<close> raises \<open>TypeError\<close> (it subscripts the \<open>None\<close> that \<open>get\<close>
  returned), for either value of \<open>get_realname\<close>.
\<close>

theorem user_id_to_name_missing_id:
  "user_id_to_name cached_client (stub_world ok_response) ''U404'' True False =
     (Inl TypeError, cached_client, stub_world ok_response) \<and>
   user_id_to_name cached_client (stub_world ok_response) ''U404'' False False =
     (Inl TypeError, cached_client, stub_world ok_response)"
  by (simp add: user_id_to_name_def refresh_users_def cached_client_def key_eq_def)

text \<open>
  Claim C4 against the code: \<open>file_upload(['#general', 'C2'], 'report.txt')\<close> posts
  \<open>channels\<close> as \<open>C1\<close> alone; the entry \<open>C2\<close>, already an id, is skipped by the loop
  and never reaches the request.
\<close>

theorem file_upload_drops_ids:
  "fst (file_upload cached_client (stub_world ok_response) [''#general'', ''C2''] ''report.txt'' []) =
     Inr (JObj [(''ok'', JBool True)]) \<and>
   map (data \<circ> fst) (exchanges (snd (snd (file_upload cached_client (stub_world ok_response)
     [''#general'', ''C2''] ''report.txt'' [])))) =
     [[(''channels'', JStr ''C1''), (''token'', JStr ''xoxb-1'')]]"
  by (simp add: file_upload_def eval_defs py_open_def ok_response_def)

text \<open>
  Claim C10. When the name given to \<open>channel_history\<close> (or \<open>group_history\<close>) does not
  resolve, so that the lookup returns \<open>None\<close>, no error is raised for the miss: the call
  goes on to the dispatch routine with \<open>None\<close> as the \<open>channel\<close> parameter, and unless
  the client is rate-limited the request is posted with that parameter.
\<close>

theorem history_sent_without_id:
  "(channel_name_to_id c w channel False = (Inr JNull, c1, w1) \<longrightarrow>
      channel_history c w channel ps =
        make_request c1 w1 ''channels.history'' (AList.update ''channel'' JNull ps) None \<and>
      map_of (data (build_request c1 ''channels.history''
        (AList.update ''channel'' JNull ps) None)) ''channel'' = Some JNull \<and>
      (rate_limited c1 w1 = (None, w2) \<longrightarrow>
         exchanges (snd (snd (channel_history c w channel ps))) =
           exchanges w1 @
             [(build_request c1 ''channels.history'' (AList.update ''channel'' JNull ps) None,
               server w2 (map fst (exchanges w1))
                 (build_request c1 ''channels.history''
                    (AList.update ''channel'' JNull ps) None))])) \<and>
   (group_name_to_id c w grp False = (Inr JNull, c1', w1') \<longrightarrow>
      group_history c w grp ps =
        make_request c1' w1' ''groups.history'' (AList.update ''channel'' JNull ps) None \<and>
      map_of (data (build_request c1' ''groups.history''
        (AList.update ''channel'' JNull ps) None)) ''channel'' = Some JNull \<and>
      (rate_limited c1' w1' = (None, w2') \<longrightarrow>
         exchanges (snd (snd (group_history c w grp ps))) =
           exchanges w1' @
             [(build_request c1' ''groups.history'' (AList.update ''channel'' JNull ps) None,
               server w2' (map fst (exchanges w1'))
                 (build_request c1' ''groups.history''
                    (AList.update ''channel'' JNull ps) None))]))"
proof -
  have param: "\<And>c' method. map_of (data (build_request c' method
      (AList.update ''channel'' JNull ps) None)) ''channel'' = Some JNull"
    by (simp add: build_request_def update_conv')
  have chan: "channel_history c w channel ps =
      make_request c1 w1 ''channels.history'' (AList.update ''channel'' JNull ps) None"
    if "channel_name_to_id c w channel False = (Inr JNull, c1, w1)"
    using that by (simp add: channel_history_def)
  have grp: "group_history c w grp ps =
      make_request c1' w1' ''groups.history'' (AList.update ''channel'' JNull ps) None"
    if "group_name_to_id c w grp False = (Inr JNull, c1', w1')"
    using that by (simp add: group_history_def)
  show ?thesis
    using param chan grp by (auto simp: make_request_sends)
qed

text \<open>
  The same for \<open>random\<close>, which is in neither cache: the stub receives
  \<open>channels.history\<close> and \<open>groups.history\<close> with \<open>channel\<close> set to \<open>None\<close>.
\<close>

theorem history_sent_without_id_witness:
  "channel_name_to_id cached_client (stub_world ok_response) ''random'' False =
     (Inr JNull, cached_client, stub_world ok_response) \<and>
   group_name_to_id cached_client (stub_world ok_response) ''random'' False =
     (Inr JNull, cached_client, stub_world ok_response) \<and>
   rate_limited cached_client (stub_world ok_response) = (None, stub_world ok_response) \<and>
   map (\<lambda>ex. (url (fst ex), data (fst ex)))
     (exchanges (snd (snd (channel_history cached_client (stub_world ok_response) ''random'' [])))) =
     [(''https://slack.com/api/channels.history'',
       [(''channel'', JNull), (''token'', JStr ''xoxb-1'')])] \<and>
   map (\<lambda>ex. (url (fst ex), data (fst ex)))
     (exchanges (snd (snd (group_history cached_client (stub_world ok_response) ''random'' [])))) =
     [(''https://slack.com/api/groups.history'',
       [(''channel'', JNull), (''token'', JStr ''xoxb-1'')])]"
proof -
  let ?w = "stub_world ok_response"
  have a: "channel_name_to_id cached_client ?w ''random'' False = (Inr JNull, cached_client, ?w)"
    by (simp add: channel_name_to_id_def refresh_channels_def get_or_none_def strip_sigil_def
        channel_is_name_def key_eq_def cached_client_def)
  have b: "group_name_to_id cached_client ?w ''random'' False = (Inr JNull, cached_client, ?w)"
    by (simp add: group_name_to_id_def refresh_groups_def get_or_none_def strip_sigil_def
        channel_is_name_def key_eq_def cached_client_def)
  have g: "rate_limited cached_client ?w = (None, ?w)"
    by (simp add: rate_limited_def cached_client_def fresh_client_def init_def)
  have e: "exchanges ?w = []"
    by (simp add: stub_world_def)
  have u: "AList.update ''channel'' JNull [] = [(''channel'', JNull)]"
    by simp
  have rq: "\<And>method. build_request cached_client method [(''channel'', JNull)] None =
      \<lparr>url = ''https://slack.com/api/'' @ method,
       data = [(''channel'', JNull), (''token'', JStr ''xoxb-1'')],
       verify_tls = False, files = None\<rparr>"
    by (simp add: build_request_def BASE_URL_def cached_client_def fresh_client_def init_def)
  note sent = history_sent_without_id [of cached_client ?w "''random''" cached_client ?w "[]" ?w
      "''random''" cached_client ?w ?w]
  from sent a g have ch: "exchanges (snd (snd (channel_history cached_client ?w ''random'' []))) =
      exchanges ?w @
        [(build_request cached_client ''channels.history'' (AList.update ''channel'' JNull []) None,
          server ?w (map fst (exchanges ?w))
            (build_request cached_client ''channels.history''
               (AList.update ''channel'' JNull []) None))]"
    by blast
  from sent b g have gr: "exchanges (snd (snd (group_history cached_client ?w ''random'' []))) =
      exchanges ?w @
        [(build_request cached_client ''groups.history'' (AList.update ''channel'' JNull []) None,
          server ?w (map fst (exchanges ?w))
            (build_request cached_client ''groups.history''
               (AList.update ''channel'' JNull []) None))]"
    by blast
  show ?thesis
    using a b g by (simp add: ch gr e u rq)
qed

section \<open>Properties of the caches\<close>




























end
